theory Spec2Isabelle
  imports Main "HOL-Library.AList"
begin

section \<open>JavaScript values\<close>

text \<open>
  The values that cross the boundaries of the relay (log fields, tool arguments, parsed
  upstream bodies, rich-text trees) are JSON-like: \<open>null\<close>, \<open>undefined\<close>, booleans,
  numbers, strings, arrays and plain objects. A plain object is the list of its own
  enumerable string-keyed properties in \<open>Object.entries\<close> order; the keys of one object
  are pairwise distinct (\<open>wf_js\<close>). Strings are lists of 8-bit characters (code units below 256), numbers are
  opaque integers: no function below does arithmetic on a payload number.
\<close>

datatype jsval =
    JNull
  | JUndefined
  | JBool bool
  | JNum int
  | JStr string
  | JArr "jsval list"
  | JObj "(string \<times> jsval) list"

fun wf_js :: "jsval \<Rightarrow> bool" where
  "wf_js (JArr vs) = (\<forall>v \<in> set vs. wf_js v)"
| "wf_js (JObj es) = (distinct (map fst es) \<and> (\<forall>e \<in> set es. wf_js (snd e)))"
| "wf_js _ = True"

text \<open>\<open>obj[k]\<close> on a plain object: the own property, \<open>undefined\<close> when absent.\<close>

definition get_prop :: "(string \<times> jsval) list \<Rightarrow> string \<Rightarrow> jsval" where
  "get_prop obj k = (case map_of obj k of None \<Rightarrow> JUndefined | Some v \<Rightarrow> v)"

text \<open>
  \<open>obj[k] = v\<close> on an object created by the literal \<open>{}\<close>: an existing own property
  keeps its position, a new one is appended. The key \<open>__proto__\<close> is the accessor
  inherited from \<open>Object.prototype\<close>: assigning to it sets (or ignores) the prototype and
  creates no own property.
\<close>

definition set_prop :: "string \<Rightarrow> jsval \<Rightarrow> (string \<times> jsval) list \<Rightarrow> (string \<times> jsval) list" where
  "set_prop k v obj = (if k = ''__proto__'' then obj else AList.update k v obj)"

section \<open>Log sink: \<open>src/shared/logger.ts\<close>\<close>

text \<open>\<open>String.prototype.toLowerCase\<close> on ASCII text: the letters \<open>A\<close> to \<open>Z\<close> are mapped to
  \<open>a\<close> to \<open>z\<close>.\<close>

definition toLowerCase_char :: "char \<Rightarrow> char" where
  "toLowerCase_char c =
     (let n = (of_char c :: nat) in if 65 \<le> n \<and> n \<le> 90 then char_of (n + 32) else c)"

definition toLowerCase :: "string \<Rightarrow> string" where
  "toLowerCase s = map toLowerCase_char s"

definition SENSITIVE_KEYS :: "string list" where
  "SENSITIVE_KEYS =
     [''apitoken'', ''api_token'', ''apikey'', ''api_key'', ''accesskeyid'',
      ''access_key_id'', ''secretaccesskey'', ''secret_access_key'', ''password'',
      ''secret'', ''token'', ''authorization'', ''cookie'']"

definition is_sensitive :: "string \<Rightarrow> bool" where
  "is_sensitive key = (toLowerCase key \<in> set SENSITIVE_KEYS)"

definition REDACTED :: jsval where
  "REDACTED = JStr ''[REDACTED]''"

text \<open>
  \<open>sanitise\<close>; \<open>sanitise_loop\<close> is its \<open>for (const [key, val] of Object.entries(value))\<close>
  loop, with the object \<open>result\<close> under construction as the second argument.
\<close>

fun sanitise :: "jsval \<Rightarrow> jsval"
  and sanitise_loop :: "(string \<times> jsval) list \<Rightarrow> (string \<times> jsval) list \<Rightarrow> (string \<times> jsval) list"
where
  "sanitise JNull = JNull"
| "sanitise JUndefined = JUndefined"
| "sanitise (JBool b) = JBool b"
| "sanitise (JNum n) = JNum n"
| "sanitise (JStr s) = JStr s"
| "sanitise (JArr vs) = JArr (map sanitise vs)"
| "sanitise (JObj es) = JObj (sanitise_loop es [])"
| "sanitise_loop [] result = result"
| "sanitise_loop ((key, val) # rest) result =
     sanitise_loop rest
       (if is_sensitive key then set_prop key REDACTED result
        else set_prop key (sanitise val) result)"


text \<open>
  \<open>log\<close> builds \<open>{timestamp, ...entry}\<close> (a spread defines every own property of the entry,
  a \<open>timestamp\<close> of the entry replacing the fresh one in place) and hands it to
  \<open>sanitise\<close>; the result is the object that is serialised to the log line.
\<close>

definition log_output :: "string \<Rightarrow> (string \<times> jsval) list \<Rightarrow> jsval" where
  "log_output timestamp entry =
     sanitise (JObj (fold (\<lambda>(k, v) obj. AList.update k v obj) entry
                       [(''timestamp'', JStr timestamp)]))"

text \<open>
  Positions inside a value: a path descends through object keys and array indices.
  \<open>get_path p v\<close> is the value at position \<open>p\<close> of \<open>v\<close>, when there is one.
\<close>

datatype step = Key string | Idx nat

fun get_path :: "step list \<Rightarrow> jsval \<Rightarrow> jsval option" where
  "get_path [] v = Some v"
| "get_path (Key k # p) (JObj es) =
     (case map_of es k of None \<Rightarrow> None | Some v \<Rightarrow> get_path p v)"
| "get_path (Idx i # p) (JArr vs) = (if i < length vs then get_path p (vs ! i) else None)"
| "get_path (s # p) v = None"

text \<open>A step that \<open>sanitise\<close> walks through: an index, or a key that is neither on the
  denylist nor \<open>__proto__\<close>.\<close>

fun plain_step :: "step \<Rightarrow> bool" where
  "plain_step (Key k) = (\<not> is_sensitive k \<and> k \<noteq> ''__proto__'')"
| "plain_step (Idx i) = True"

fun is_scalar :: "jsval \<Rightarrow> bool" where
  "is_scalar (JArr vs) = False"
| "is_scalar (JObj es) = False"
| "is_scalar v = True"

text \<open>A log entry with credentials at several depths.\<close>

definition log_example :: jsval where
  "log_example =
     JObj [(''message'', JStr ''started''),
           (''config'', JObj [(''baseUrl'', JStr ''https://jira.example''),
                              (''apiToken'', JStr ''sk_live'')]),
           (''items'', JArr [JNum 7, JObj [(''Password'', JObj [(''hint'', JStr ''pw'')])]])]"

section \<open>Strings\<close>

text \<open>The string operations of the formatters: \<open>Array.prototype.join\<close> on an array of
  strings, \<open>split\<close> on a one-character separator, \<open>startsWith\<close>, and the decimal
  rendering of a non-negative integer in a template literal.\<close>

definition LF :: char where
  "LF = CHR 0x0A"

fun join :: "string \<Rightarrow> string list \<Rightarrow> string" where
  "join sep [] = []"
| "join sep [x] = x"
| "join sep (x # y # ys) = x @ sep @ join sep (y # ys)"

fun split_on :: "char \<Rightarrow> string \<Rightarrow> string list" where
  "split_on c [] = [[]]"
| "split_on c (x # xs) =
     (if x = c then [] # split_on c xs
      else (case split_on c xs of [] \<Rightarrow> [[x]] | l # ls \<Rightarrow> (x # l) # ls))"

definition startsWith :: "string \<Rightarrow> string \<Rightarrow> bool" where
  "startsWith s pre = (take (length pre) s = pre)"

definition digit_char :: "nat \<Rightarrow> char" where
  "digit_char d = ''0123456789'' ! d"

function show_nat :: "nat \<Rightarrow> string" where
  "show_nat n = (if n < 10 then [digit_char n] else show_nat (n div 10) @ [digit_char (n mod 10)])"
  by pat_completeness auto
termination
  by (relation "measure id") auto

declare show_nat.simps [simp del]

section \<open>Rich-text reducer: \<open>extractTextFromAdf\<close> (\<open>tools/jira/schemas.ts\<close>)\<close>

text \<open>A child of a node's \<open>content\<close> array is smaller than the node: the recursion of the
  reducer is well-founded on every value.\<close>

lemma size_content_child:
  assumes "map_of es k = Some (JArr content)" and "child \<in> set content"
  shows "size child < size (JObj es)"
proof -
  from assms(1) have "(k, JArr content) \<in> set es" by (rule map_of_SomeD)
  then have "size (JArr content) \<le> size_list (size_prod (\<lambda>_. 0) size) es"
    by (induction es) auto
  moreover from assms(2) have "size child < size (JArr content)"
    by (induction content) auto
  ultimately show ?thesis by simp
qed

lemma size_content_nth:
  "map_of (es :: (string \<times> jsval) list) k = Some (JArr content) \<Longrightarrow> i < length content \<Longrightarrow>
   size (content ! i) < Suc (size_list (size_prod (\<lambda>x. 0) size) es)"
  using size_content_child [of es k content "content ! i"] by simp

text \<open>
  The reducer, branch for branch. A value that is not an object, an object whose \<open>type\<close>
  is not a string, and a container whose \<open>content\<close> is not an array all reduce to the
  empty string; no branch throws. The \<open>orderedList\<close> branch maps over \<open>content\<close> with the
  index, as the source does.
\<close>

function extractTextFromAdf :: "jsval \<Rightarrow> string" where
  "extractTextFromAdf node =
     (case node of
        JObj record \<Rightarrow>
          (case get_prop record ''type'' of
             JStr type \<Rightarrow>
               if type = ''text'' then
                 (case get_prop record ''text'' of JStr t \<Rightarrow> t | _ \<Rightarrow> [])
               else if type = ''hardBreak'' then [LF]
               else
                 (case get_prop record ''content'' of
                    JArr content \<Rightarrow>
                      (let childTexts = map extractTextFromAdf content in
                       if type = ''doc'' then join [LF, LF] childTexts
                       else if type = ''paragraph'' \<or> type = ''heading'' then join [] childTexts
                       else if type = ''bulletList'' then join [LF] childTexts
                       else if type = ''orderedList'' then
                         join [LF]
                           (map (\<lambda>(index, child).
                                   let text = extractTextFromAdf child in
                                   if startsWith text ''- ''
                                   then show_nat (index + 1) @ ''. '' @ drop 2 text
                                   else show_nat (index + 1) @ ''. '' @ text)
                              (enumerate 0 content))
                       else if type = ''listItem'' then ''- '' @ join [] childTexts
                       else if type = ''codeBlock'' then join [] childTexts
                       else if type = ''blockquote'' then
                         join [LF] (map (\<lambda>line. ''> '' @ line) (split_on LF (join [] childTexts)))
                       else join [] childTexts)
                  | _ \<Rightarrow> [])
           | _ \<Rightarrow> [])
      | _ \<Rightarrow> [])"
  by pat_completeness auto
termination
proof (relation "measure size", goal_cases)
  case 1
  then show ?case by simp
next
  case 2
  then show ?case
    by (auto simp: get_prop_def split: option.splits dest: size_content_child)
next
  case 3
  then show ?case
    by (auto simp: get_prop_def in_set_enumerate_eq split: option.splits
        intro!: size_content_nth)
qed

declare extractTextFromAdf.simps [simp del]

text \<open>The node types the reducer has a branch for (its doc comment lists them).\<close>

definition KNOWN_NODE_TYPES :: "string list" where
  "KNOWN_NODE_TYPES =
     [''doc'', ''paragraph'', ''heading'', ''text'', ''hardBreak'', ''bulletList'',
      ''orderedList'', ''listItem'', ''codeBlock'', ''blockquote'']"

text \<open>Node constructors for examples.\<close>

definition text_node :: "string \<Rightarrow> jsval" where
  "text_node s = JObj [(''type'', JStr ''text''), (''text'', JStr s)]"

definition container :: "string \<Rightarrow> jsval list \<Rightarrow> jsval" where
  "container t cs = JObj [(''type'', JStr t), (''content'', JArr cs)]"


section \<open>The reducer on a bounded call stack\<close>

text \<open>
  The recursion of \<open>extractTextFromAdf\<close> has no depth bound, and the engine raises
  \<open>RangeError\<close> (maximum call stack size exceeded) when a call finds the stack full. The
  stack is a parameter: \<open>frames\<close> is the number of nested calls of \<open>extractTextFromAdf\<close>
  that it still admits (the frames of \<open>map\<close> and of the callbacks count into it). A call
  with no frame left throws; a call on a container hands one frame less to each child, and
  \<open>content.map\<close> stops at the first child that throws (\<open>sequence\<close>). The branches are
  those of the source; the result of a call that returns is \<open>Inr\<close> of the text.
\<close>

datatype js_exception = RangeError

fun sequence :: "('e + 'a) list \<Rightarrow> 'e + 'a list" where
  "sequence [] = Inr []"
| "sequence (Inl e # rest) = Inl e"
| "sequence (Inr v # rest) =
     (case sequence rest of Inl e \<Rightarrow> Inl e | Inr vs \<Rightarrow> Inr (v # vs))"

fun extractTextFromAdf_stack :: "nat \<Rightarrow> jsval \<Rightarrow> js_exception + string" where
  "extractTextFromAdf_stack 0 node = Inl RangeError"
| "extractTextFromAdf_stack (Suc frames) node =
     (case node of
        JObj record \<Rightarrow>
          (case get_prop record ''type'' of
             JStr type \<Rightarrow>
               if type = ''text'' then
                 Inr (case get_prop record ''text'' of JStr t \<Rightarrow> t | _ \<Rightarrow> [])
               else if type = ''hardBreak'' then Inr [LF]
               else
                 (case get_prop record ''content'' of
                    JArr content \<Rightarrow>
                      (case sequence (map (extractTextFromAdf_stack frames) content) of
                         Inl e \<Rightarrow> Inl e
                       | Inr childTexts \<Rightarrow>
                           if type = ''doc'' then Inr (join [LF, LF] childTexts)
                           else if type = ''paragraph'' \<or> type = ''heading'' then Inr (join [] childTexts)
                           else if type = ''bulletList'' then Inr (join [LF] childTexts)
                           else if type = ''orderedList'' then
                             (case sequence
                                     (map (\<lambda>(index, child).
                                             case extractTextFromAdf_stack frames child of
                                               Inl e \<Rightarrow> Inl e
                                             | Inr text \<Rightarrow>
                                                 Inr (if startsWith text ''- ''
                                                      then show_nat (index + 1) @ ''. '' @ drop 2 text
                                                      else show_nat (index + 1) @ ''. '' @ text))
                                        (enumerate 0 content)) of
                                Inl e \<Rightarrow> Inl e
                              | Inr items \<Rightarrow> Inr (join [LF] items))
                           else if type = ''listItem'' then Inr (''- '' @ join [] childTexts)
                           else if type = ''codeBlock'' then Inr (join [] childTexts)
                           else if type = ''blockquote'' then
                             Inr (join [LF] (map (\<lambda>line. ''> '' @ line)
                                                (split_on LF (join [] childTexts))))
                           else Inr (join [] childTexts))
                  | _ \<Rightarrow> Inr [])
           | _ \<Rightarrow> Inr [])
      | _ \<Rightarrow> Inr [])"

text \<open>The number of nested calls that the reducer makes on a value: one for the call
  itself, and for a container with a \<open>content\<close> array the deepest of its children on top.\<close>

function call_depth :: "jsval \<Rightarrow> nat" where
  "call_depth node =
     (case node of
        JObj record \<Rightarrow>
          (case get_prop record ''type'' of
             JStr type \<Rightarrow>
               if type = ''text'' then 1
               else if type = ''hardBreak'' then 1
               else
                 (case get_prop record ''content'' of
                    JArr content \<Rightarrow> Suc (foldr max (map call_depth content) 0)
                  | _ \<Rightarrow> 1)
           | _ \<Rightarrow> 1)
      | _ \<Rightarrow> 1)"
  by pat_completeness auto
termination
proof (relation "measure size", goal_cases)
  case 1
  then show ?case by simp
next
  case 2
  then show ?case
    by (auto simp: get_prop_def split: option.splits dest: size_content_child)
qed

declare call_depth.simps [simp del]

text \<open>A well-formed tree: every node is an object, and the \<open>content\<close> of a node that has
  one is an array of well-formed nodes.\<close>

function well_formed_adf :: "jsval \<Rightarrow> bool" where
  "well_formed_adf node =
     (case node of
        JObj record \<Rightarrow>
          (case map_of record ''content'' of
             None \<Rightarrow> True
           | Some children \<Rightarrow>
               (case children of
                  JArr content \<Rightarrow> list_all well_formed_adf content
                | _ \<Rightarrow> False))
      | _ \<Rightarrow> False)"
  by pat_completeness auto
termination
proof (relation "measure size", goal_cases)
  case 1
  then show ?case by simp
next
  case 2
  then show ?case
    by (auto dest: size_content_child)
qed

declare well_formed_adf.simps [simp del]

text \<open>A chain of \<open>n\<close> paragraphs around one text leaf, and a node of an unknown type.\<close>

fun nest :: "nat \<Rightarrow> jsval" where
  "nest 0 = text_node ''x''"
| "nest (Suc n) = container ''paragraph'' [nest n]"

definition unknown_example :: jsval where
  "unknown_example =
     JObj [(''type'', JStr ''mediaGroup''),
           (''content'', JArr [text_node ''see '', container ''mention'' [text_node ''@kim'']])]"

section \<open>Plain text to rich text: \<open>textToAdf\<close> (\<open>tools/jira/schemas.ts\<close>)\<close>

text \<open>\<open>String.prototype.trim\<close> strips white space and line terminators. A character of
  the model is a code unit below 256; the white-space and line-terminator code units in
  that range are U+0009 to U+000D, U+0020 and U+00A0 (the others that \<open>trim\<close> strips,
  U+FEFF, U+2028, U+2029 and the space separators from U+1680 on, are not characters of
  the model).\<close>

definition is_ws :: "char \<Rightarrow> bool" where
  "is_ws c =
     (c \<in> set [CHR 0x09, CHR 0x0A, CHR 0x0B, CHR 0x0C, CHR 0x0D, CHR 0x20, CHR 0xA0])"

definition trim :: "string \<Rightarrow> string" where
  "trim s = rev (dropWhile is_ws (rev (dropWhile is_ws s)))"

text \<open>\<open>text.split(/\n{2,}/)\<close>: every maximal run of two or more newlines separates two
  blocks; a single newline stays inside its block. \<open>cur\<close> is the block being read.\<close>

function split_blank_lines :: "string \<Rightarrow> string \<Rightarrow> string list" where
  "split_blank_lines cur [] = [cur]"
| "split_blank_lines cur (c # cs) =
     (if c = LF \<and> startsWith cs [LF]
      then cur # split_blank_lines [] (dropWhile (\<lambda>x. x = LF) cs)
      else split_blank_lines (cur @ [c]) cs)"
  by pat_completeness auto
termination
  by (relation "measure (\<lambda>(cur, s). length s)")
     (auto simp: le_imp_less_Suc length_dropWhile_le)

definition paragraph_of :: "string \<Rightarrow> jsval" where
  "paragraph_of block =
     JObj [(''type'', JStr ''paragraph''),
           (''content'', JArr [JObj [(''type'', JStr ''text''), (''text'', JStr block)]])]"

definition textToAdf :: "string \<Rightarrow> jsval" where
  "textToAdf text =
     (let paragraphs =
            map paragraph_of
              (filter (\<lambda>block. block \<noteq> []) (map trim (split_blank_lines [] text)))
      in JObj [(''type'', JStr ''doc''),
               (''version'', JNum 1),
               (''content'',
                  JArr (if length paragraphs > 0 then paragraphs else [paragraph_of []]))])"

section \<open>Issue formatter: \<open>formatJiraIssue\<close> (\<open>tools/jira/schemas.ts\<close>)\<close>

text \<open>A value in a condition (\<open>fields.description ? \<dots> : \<dots>\<close>).\<close>

fun truthy :: "jsval \<Rightarrow> bool" where
  "truthy JNull = False"
| "truthy JUndefined = False"
| "truthy (JBool b) = b"
| "truthy (JNum n) = (n \<noteq> 0)"
| "truthy (JStr s) = (s \<noteq> [])"
| "truthy (JArr vs) = True"
| "truthy (JObj es) = True"

text \<open>
  A value that passed \<open>JiraIssueResponseSchema\<close>: \<open>key\<close> and the \<open>fields\<close> object with
  \<open>summary\<close>, \<open>status.name\<close>, \<open>issuetype.name\<close>, the nullable \<open>priority\<close> (its \<open>name\<close>) and
  \<open>assignee\<close> (its \<open>displayName\<close>), the unvalidated \<open>description\<close> and the two timestamps.
  Every string is any string (\<open>z.string()\<close>).
\<close>

record JiraIssueFields =
  summary :: string
  status_name :: string
  issuetype_name :: string
  priority_name :: "string option"
  assignee_displayName :: "string option"
  description :: jsval
  created :: string
  updated :: string

record JiraIssueResponse =
  issue_key :: string
  issue_fields :: JiraIssueFields

definition formatJiraIssue :: "JiraIssueResponse \<Rightarrow> string" where
  "formatJiraIssue issue =
     (let key = issue_key issue;
          fields = issue_fields issue;
          priority = (case priority_name fields of None \<Rightarrow> ''None'' | Some n \<Rightarrow> n);
          assignee = (case assignee_displayName fields of None \<Rightarrow> ''Unassigned'' | Some n \<Rightarrow> n);
          descriptionText =
            (if truthy (description fields) then extractTextFromAdf (description fields) else []);
          description =
            (if trim descriptionText \<noteq> [] then trim descriptionText
             else ''No description provided.'');
          lines =
            [key @ '': '' @ summary fields,
             [],
             ''Type:     '' @ issuetype_name fields,
             ''Status:   '' @ status_name fields,
             ''Priority: '' @ priority,
             ''Assignee: '' @ assignee,
             [],
             ''Created:  '' @ created fields,
             ''Updated:  '' @ updated fields,
             [],
             ''Description:'',
             description]
      in join [LF] lines)"

text \<open>
  Re-deriving the essential fields from the formatted text, by position: the first line
  is split at its first \<open>": "\<close> into key and summary, and the fourth line carries the
  status after its label. (The repository has no such parser; this one follows the
  layout that \<open>formatJiraIssue\<close> writes.)
\<close>

fun split_at_colon :: "string \<Rightarrow> (string \<times> string) option" where
  "split_at_colon [] = None"
| "split_at_colon (c # cs) =
     (if startsWith (c # cs) '': '' then Some ([], drop 2 (c # cs))
      else map_option (\<lambda>(k, s). (c # k, s)) (split_at_colon cs))"

definition rederive :: "string \<Rightarrow> (string \<times> string \<times> string) option" where
  "rederive text =
     (let lines = split_on LF text in
      if length lines < 4 then None
      else (case split_at_colon (lines ! 0) of
              None \<Rightarrow> None
            | Some (k, s) \<Rightarrow>
                if startsWith (lines ! 3) ''Status:   ''
                then Some (k, s, drop 10 (lines ! 3))
                else None))"

text \<open>The string contains \<open>": "\<close>.\<close>

fun has_colon_space :: "string \<Rightarrow> bool" where
  "has_colon_space [] = False"
| "has_colon_space (c # cs) = (startsWith (c # cs) '': '' \<or> has_colon_space cs)"

definition no_null_fields :: "JiraIssueResponse \<Rightarrow> bool" where
  "no_null_fields issue =
     (priority_name (issue_fields issue) \<noteq> None
      \<and> assignee_displayName (issue_fields issue) \<noteq> None
      \<and> description (issue_fields issue) \<noteq> JNull)"

text \<open>Two validated issues, and a third, for examples.\<close>

definition issue_A :: JiraIssueResponse where
  "issue_A = \<lparr>issue_key = ''A'', issue_fields = \<lparr>summary = ''B: C'', status_name = ''Open'',
      issuetype_name = ''Bug'', priority_name = Some ''High'', assignee_displayName = Some ''Kim'',
      description = textToAdf ''text'', created = ''2024-01-01'', updated = ''2024-01-02''\<rparr>\<rparr>"

definition issue_B :: JiraIssueResponse where
  "issue_B = \<lparr>issue_key = ''A: B'', issue_fields = \<lparr>summary = ''C'', status_name = ''Open'',
      issuetype_name = ''Bug'', priority_name = Some ''High'', assignee_displayName = Some ''Kim'',
      description = textToAdf ''text'', created = ''2024-01-01'', updated = ''2024-01-02''\<rparr>\<rparr>"

definition issue_PROJ :: JiraIssueResponse where
  "issue_PROJ = \<lparr>issue_key = ''PROJ-123'',
      issue_fields = \<lparr>summary = ''Login: button unresponsive'', status_name = ''In Progress'',
      issuetype_name = ''Bug'', priority_name = Some ''High'', assignee_displayName = Some ''Kim'',
      description = textToAdf (''Steps'' @ [LF, LF] @ ''Status:   Done''),
      created = ''2024-01-01'', updated = ''2024-01-02''\<rparr>\<rparr>"

section \<open>Error taxonomy: \<open>shared/errors.ts\<close>\<close>

text \<open>The call metadata and the three failure classes. A thrown error is a value: a
  function that can throw returns \<open>ToolError + 'a\<close>, with \<open>Inl\<close> for the throw.\<close>

record ErrorMetadata =
  toolName :: string
  operation :: string
  correlationId :: string

datatype ToolError =
    ExternalServiceError string ErrorMetadata "nat option"
  | ValidationError string ErrorMetadata "string list"
  | ConfigurationError string ErrorMetadata

fun error_message :: "ToolError \<Rightarrow> string" where
  "error_message (ExternalServiceError m md sc) = m"
| "error_message (ValidationError m md iss) = m"
| "error_message (ConfigurationError m md) = m"

fun error_metadata :: "ToolError \<Rightarrow> ErrorMetadata" where
  "error_metadata (ExternalServiceError m md sc) = md"
| "error_metadata (ValidationError m md iss) = md"
| "error_metadata (ConfigurationError m md) = md"

fun statusCode :: "ToolError \<Rightarrow> nat option" where
  "statusCode (ExternalServiceError m md sc) = sc"
| "statusCode e = None"

fun error_issues :: "ToolError \<Rightarrow> string list" where
  "error_issues (ValidationError m md iss) = iss"
| "error_issues e = []"

section \<open>Log entries\<close>

text \<open>A call of \<open>log\<close>: level, message, the call metadata spread into the entry, and the
  optional duration and error text. Every call emits one line; the lines of an invocation
  are the list of its calls, in order.\<close>

datatype LogLevel = Info | Warn | Error

record LogEntry =
  level :: LogLevel
  message :: string
  entry_metadata :: ErrorMetadata
  durationMs :: "int option"
  error_text :: "string option"

definition log_entry :: "LogLevel \<Rightarrow> string \<Rightarrow> ErrorMetadata \<Rightarrow> LogEntry" where
  "log_entry l m md =
     \<lparr>level = l, message = m, entry_metadata = md, durationMs = None, error_text = None\<rparr>"

definition log_with :: "LogLevel \<Rightarrow> string \<Rightarrow> string option \<Rightarrow> int \<Rightarrow> ErrorMetadata \<Rightarrow> LogEntry" where
  "log_with l m e d md =
     \<lparr>level = l, message = m, entry_metadata = md, durationMs = Some d, error_text = e\<rparr>"

text \<open>The number of lines of a level in a log.\<close>

definition count_level :: "LogLevel \<Rightarrow> LogEntry list \<Rightarrow> nat" where
  "count_level l logs = length (filter (\<lambda>e. level e = l) logs)"

section \<open>The platform\<close>

text \<open>
  What the code takes from the runtime and its libraries, as parameters: \<open>fetch\<close> (what
  the upstream does with a request: a completed response with status and body text, a
  rejection with the \<open>AbortError\<close> of the abort signal, or another thrown value, an
  \<open>Error\<close> with its message or something else), the URL parser \<open>new URL\<close> (\<open>None\<close> when it
  throws), \<open>JSON.parse\<close> (\<open>None\<close> when it throws), \<open>JSON.stringify\<close>, base64 encoding,
  \<open>encodeURIComponent\<close> and the serialiser of \<open>URLSearchParams\<close>.
\<close>

record URL =
  origin :: string
  pathname :: string
  search :: string
  hash :: string

record fetch_request =
  req_url :: string
  req_method :: string
  req_headers :: "(string \<times> string) list option"
  req_body :: "string option"

datatype fetch_outcome =
    Responded nat string
  | AbortError
  | Thrown "string option"

record platform =
  fetch :: "fetch_request \<Rightarrow> fetch_outcome"
  new_URL :: "string \<Rightarrow> URL option"
  JSON_parse :: "string \<Rightarrow> jsval option"
  JSON_stringify :: "jsval \<Rightarrow> string"
  base64 :: "string \<Rightarrow> string"
  encodeURIComponent :: "string \<Rightarrow> string"
  URLSearchParams_toString :: "(string \<times> string) list \<Rightarrow> string"

section \<open>Bounded network client: \<open>shared/http-client.ts\<close>\<close>

definition DEFAULT_TIMEOUT_MS :: nat where
  "DEFAULT_TIMEOUT_MS = 30000"

definition safeUrl :: "platform \<Rightarrow> string \<Rightarrow> string" where
  "safeUrl pf raw =
     (case new_URL pf raw of
        Some parsed \<Rightarrow> origin parsed @ pathname parsed
      | None \<Rightarrow> ''<malformed-url>'')"

record HttpRequestOptions =
  http_url :: string
  http_method :: "string option"
  http_headers :: "(string \<times> string) list option"
  http_body :: "string option"
  http_timeoutMs :: "nat option"
  http_metadata :: ErrorMetadata

record HttpResponse =
  status :: nat
  body :: string

text \<open>The arguments of the call to \<open>fetch\<close> (the abort signal apart).\<close>

definition http_fetch_request :: "HttpRequestOptions \<Rightarrow> fetch_request" where
  "http_fetch_request options =
     \<lparr>req_url = http_url options,
      req_method = (case http_method options of None \<Rightarrow> ''GET'' | Some m \<Rightarrow> m),
      req_headers = http_headers options,
      req_body = http_body options\<rparr>"

text \<open>\<open>httpRequest\<close> with \<open>safeUrl\<close>: the \<open>try\<close> block returns status and body of a
  completed response; the \<open>catch\<close> block wraps an abort and any other failure.\<close>

definition httpRequest :: "platform \<Rightarrow> HttpRequestOptions \<Rightarrow> ToolError + HttpResponse" where
  "httpRequest pf options =
     (let url = http_url options;
          timeoutMs = (case http_timeoutMs options of None \<Rightarrow> DEFAULT_TIMEOUT_MS | Some t \<Rightarrow> t);
          metadata = http_metadata options
      in case fetch pf (http_fetch_request options) of
           Responded st responseBody \<Rightarrow> Inr \<lparr>status = st, body = responseBody\<rparr>
         | AbortError \<Rightarrow>
             Inl (ExternalServiceError
                    (''Request to '' @ safeUrl pf url @ '' timed out after '' @ show_nat timeoutMs @ ''ms'')
                    metadata None)
         | Thrown e \<Rightarrow>
             (let message = (case e of Some m \<Rightarrow> m | None \<Rightarrow> ''Unknown network error'')
              in Inl (ExternalServiceError
                        (''Request to '' @ safeUrl pf url @ '' failed: '' @ message)
                        metadata None)))"

text \<open>The repository holds a second \<open>httpRequest\<close>, which differs from the first only in
  that its messages interpolate \<open>url\<close> itself, not \<open>safeUrl(url)\<close>.\<close>

definition httpRequest_raw :: "platform \<Rightarrow> HttpRequestOptions \<Rightarrow> ToolError + HttpResponse" where
  "httpRequest_raw pf options =
     (let url = http_url options;
          timeoutMs = (case http_timeoutMs options of None \<Rightarrow> DEFAULT_TIMEOUT_MS | Some t \<Rightarrow> t);
          metadata = http_metadata options
      in case fetch pf (http_fetch_request options) of
           Responded st responseBody \<Rightarrow> Inr \<lparr>status = st, body = responseBody\<rparr>
         | AbortError \<Rightarrow>
             Inl (ExternalServiceError
                    (''Request to '' @ url @ '' timed out after '' @ show_nat timeoutMs @ ''ms'')
                    metadata None)
         | Thrown e \<Rightarrow>
             (let message = (case e of Some m \<Rightarrow> m | None \<Rightarrow> ''Unknown network error'')
              in Inl (ExternalServiceError
                        (''Request to '' @ url @ '' failed: '' @ message)
                        metadata None)))"

section \<open>Upstream domain client: \<open>tools/jira/client.ts\<close>\<close>

record JiraConfig =
  baseUrl :: string
  userEmail :: string
  apiToken :: string

record JiraRequestOptions =
  jira_config :: JiraConfig
  jira_path :: string
  jira_method :: "string option"
  jira_body :: "string option"
  jira_metadata :: ErrorMetadata
  notFoundMessage :: "string option"

record McpResponse =
  isError :: bool
  content_text :: string

datatype JiraResult = Ok jsval | NotOk McpResponse

text \<open>The options \<open>jiraRequest\<close> hands to \<open>httpRequest\<close>.\<close>

definition jira_http_options :: "platform \<Rightarrow> JiraRequestOptions \<Rightarrow> HttpRequestOptions" where
  "jira_http_options pf options =
     (let config = jira_config options;
          url = baseUrl config @ jira_path options;
          authToken = base64 pf (userEmail config @ '':'' @ apiToken config)
      in \<lparr>http_url = url,
          http_method = Some (case jira_method options of None \<Rightarrow> ''GET'' | Some m \<Rightarrow> m),
          http_headers =
            Some ([(''Authorization'', ''Basic '' @ authToken), (''Accept'', ''application/json'')]
                  @ (if jira_body options \<noteq> None then [(''Content-Type'', ''application/json'')] else [])),
          http_body = jira_body options,
          http_timeoutMs = None,
          http_metadata = jira_metadata options\<rparr>)"

text \<open>\<open>jiraRequest\<close> returns the log calls it made and its result: a thrown error, or the
  envelope (\<open>Ok data\<close> for \<open>{ok: true, data}\<close>, \<open>NotOk r\<close> for \<open>{ok: false, mcpResponse: r}\<close>).\<close>

definition jiraRequest :: "platform \<Rightarrow> JiraRequestOptions \<Rightarrow> LogEntry list \<times> (ToolError + JiraResult)" where
  "jiraRequest pf options =
     (let metadata = jira_metadata options in
      case httpRequest pf (jira_http_options pf options) of
        Inl e \<Rightarrow> ([], Inl e)
      | Inr response \<Rightarrow>
          if status response = 401 then
            ([log_entry Error ''Jira authentication failed'' metadata],
             Inr (NotOk \<lparr>isError = True,
                         content_text = ''Jira authentication failed. Check the configured credentials.''\<rparr>))
          else if status response = 403 then
            ([log_entry Error ''Jira permission denied'' metadata],
             Inr (NotOk \<lparr>isError = True,
                         content_text = ''Permission denied when accessing Jira. The configured user may lack access.''\<rparr>))
          else if status response = 404 then
            (let message =
                   (case notFoundMessage options of
                      Some m \<Rightarrow> m
                    | None \<Rightarrow> ''The requested Jira resource was not found. Check the identifier and try again.'')
             in ([log_entry Warn ''Jira resource not found'' metadata],
                 Inr (NotOk \<lparr>isError = True, content_text = message\<rparr>)))
          else if status response < 200 \<or> status response \<ge> 300 then
            ([], Inl (ExternalServiceError
                        (''Jira API returned unexpected status '' @ show_nat (status response))
                        metadata (Some (status response))))
          else
            (case JSON_parse pf (body response) of
               None \<Rightarrow>
                 ([], Inl (ExternalServiceError ''Failed to parse Jira API response as JSON'' metadata None))
             | Some data \<Rightarrow> ([], Inr (Ok data))))"

section \<open>Schema validator: \<open>shared/validation.ts\<close>\<close>

text \<open>
  A Zod schema is its \<open>safeParse\<close>: the typed value, or the issues of the \<open>ZodError\<close>,
  each with a path (keys and array indices) and a message. Zod reports a failure with at
  least one issue.
\<close>

datatype path_elem = PKey string | PIdx nat

fun show_path_elem :: "path_elem \<Rightarrow> string" where
  "show_path_elem (PKey k) = k"
| "show_path_elem (PIdx n) = show_nat n"

record ZodIssue =
  issue_path :: "path_elem list"
  issue_message :: string

type_synonym 'a ZodType = "jsval \<Rightarrow> ZodIssue list + 'a"

definition parseResponse :: "'a ZodType \<Rightarrow> jsval \<Rightarrow> ErrorMetadata \<Rightarrow> ToolError + 'a" where
  "parseResponse schema data metadata =
     (case schema data of
        Inr result_data \<Rightarrow> Inr result_data
      | Inl zod_issues \<Rightarrow>
          (let issues =
                 map (\<lambda>issue. join ''.'' (map show_path_elem (issue_path issue))
                                 @ '': '' @ issue_message issue)
                   zod_issues
           in Inl (ValidationError ''API response did not match expected schema'' metadata issues)))"

section \<open>Tool handlers: \<open>jira_get_issue\<close> and \<open>jira_update_issue\<close>\<close>

text \<open>
  A handler returns the log calls of the invocation and the response. The correlation id
  (\<open>crypto.randomUUID()\<close>) and the two readings of \<open>Date.now()\<close> are inputs. The \<open>catch\<close>
  block of a handler is the branch for a thrown error. \<open>registerGetIssue_handler\<close> is the handler
  of \<open>registerGetIssue\<close> that logs a warning when the envelope is a failure.
\<close>

definition JIRA_FIELDS :: string where
  "JIRA_FIELDS =
     join '','' [''summary'', ''status'', ''assignee'', ''priority'', ''issuetype'',
                 ''description'', ''created'', ''updated'']"

record clock =
  startTime :: int
  endTime :: int

definition registerGetIssue_handler ::
  "platform \<Rightarrow> JiraConfig \<Rightarrow> JiraIssueResponse ZodType \<Rightarrow> string \<Rightarrow> clock \<Rightarrow> string
     \<Rightarrow> LogEntry list \<times> McpResponse" where
  "registerGetIssue_handler pf config JiraIssueResponseSchema uuid clk issueKey =
     (let metadata = \<lparr>toolName = ''jira_get_issue'', operation = ''getIssue'', correlationId = uuid\<rparr>;
          log0 = [log_entry Info (''Fetching Jira issue '' @ issueKey) metadata];
          params = URLSearchParams_toString pf [(''fields'', JIRA_FIELDS)];
          (log1, result) =
            jiraRequest pf
              \<lparr>jira_config = config,
               jira_path = ''/rest/api/3/issue/'' @ encodeURIComponent pf issueKey @ ''?'' @ params,
               jira_method = None, jira_body = None, jira_metadata = metadata,
               notFoundMessage =
                 Some (''Jira issue '' @ issueKey @ '' was not found. Check the issue key and try again.'')\<rparr>;
          durationMs = endTime clk - startTime clk;
          catch = (\<lambda>err.
            (log0 @ log1 @
               [log_with Error (''Failed to fetch issue '' @ issueKey) (Some (error_message err))
                  durationMs metadata],
             \<lparr>isError = True,
              content_text = ''An error occurred while fetching Jira issue '' @ issueKey
                             @ ''. Check server logs for details.''\<rparr>))
      in case result of
           Inl err \<Rightarrow> catch err
         | Inr (NotOk mcpResponse) \<Rightarrow>
             (log0 @ log1 @
                [log_with Warn (''Jira request failed for '' @ issueKey) None durationMs metadata],
              mcpResponse)
         | Inr (Ok data) \<Rightarrow>
             (case parseResponse JiraIssueResponseSchema data metadata of
                Inl err \<Rightarrow> catch err
              | Inr validated \<Rightarrow>
                  (log0 @ log1 @
                     [log_with Info (''Fetched issue '' @ issueKey) None durationMs metadata],
                   \<lparr>isError = False, content_text = formatJiraIssue validated\<rparr>)))"

text \<open>\<open>processedFields\<close>, from the caller's field map: the copy \<open>{...fields}\<close>, in which a
  string-valued \<open>description\<close> is replaced by its ADF document.\<close>

definition processedFields :: "(string \<times> jsval) list \<Rightarrow> (string \<times> jsval) list" where
  "processedFields args_fields =
     (let copy = args_fields in
      case get_prop copy ''description'' of
        JStr s \<Rightarrow> set_prop ''description'' (textToAdf s) copy
      | _ \<Rightarrow> copy)"

definition registerUpdateIssue_request ::
  "platform \<Rightarrow> JiraConfig \<Rightarrow> ErrorMetadata \<Rightarrow> string \<Rightarrow> (string \<times> jsval) list \<Rightarrow> JiraRequestOptions" where
  "registerUpdateIssue_request pf config metadata issueKey args_fields =
     \<lparr>jira_config = config,
      jira_path = ''/rest/api/3/issue/'' @ encodeURIComponent pf issueKey,
      jira_method = Some ''PUT'',
      jira_body = Some (JSON_stringify pf (JObj [(''fields'', JObj (processedFields args_fields))])),
      jira_metadata = metadata,
      notFoundMessage =
        Some (''Issue '' @ issueKey @ '' was not found. Check the issue key and try again.'')\<rparr>"

definition registerUpdateIssue_handler ::
  "platform \<Rightarrow> JiraConfig \<Rightarrow> string \<Rightarrow> clock \<Rightarrow> string \<Rightarrow> (string \<times> jsval) list
     \<Rightarrow> LogEntry list \<times> McpResponse" where
  "registerUpdateIssue_handler pf config uuid clk issueKey args_fields =
     (let metadata = \<lparr>toolName = ''jira_update_issue'', operation = ''updateIssue'', correlationId = uuid\<rparr>;
          log0 = [log_entry Info (''Updating Jira issue '' @ issueKey) metadata];
          (log1, result) = jiraRequest pf (registerUpdateIssue_request pf config metadata issueKey args_fields);
          durationMs = endTime clk - startTime clk
      in case result of
           Inl err \<Rightarrow>
             if statusCode err = Some 400 then
               (log0 @ log1 @
                  [log_with Warn ''Invalid field names or values in update request''
                     (Some (error_message err)) durationMs metadata],
                \<lparr>isError = True,
                 content_text = ''Failed to update issue. Check the field names and values are valid, then try again.''\<rparr>)
             else
               (log0 @ log1 @
                  [log_with Error ''Failed to update Jira issue'' (Some (error_message err))
                     durationMs metadata],
                \<lparr>isError = True,
                 content_text = ''An error occurred while updating the Jira issue. Check server logs for details.''\<rparr>)
         | Inr (NotOk mcpResponse) \<Rightarrow>
             (log0 @ log1 @
                [log_with Warn (''Jira update request failed for '' @ issueKey) None durationMs metadata],
              mcpResponse)
         | Inr (Ok data) \<Rightarrow>
             (let updatedFieldNames = join '', '' (map fst (processedFields args_fields))
              in (log0 @ log1 @
                    [log_with Info (''Updated issue '' @ issueKey) None durationMs metadata],
                  \<lparr>isError = False,
                   content_text = ''Updated '' @ issueKey @ [LF, LF] @ ''Fields changed: ''
                                  @ updatedFieldNames\<rparr>)))"

section \<open>Example inputs\<close>

text \<open>A stand-in platform for the examples: a URL parser for plain \<open>https\<close> URLs, a JSON
  parser that knows two documents, and an upstream with a fixed outcome.\<close>

definition example_new_URL :: "string \<Rightarrow> URL option" where
  "example_new_URL raw =
     (if startsWith raw ''https://'' then
        (let rest = drop 8 raw;
             host = takeWhile (\<lambda>c. c \<notin> set ''/?#'') rest;
             after_host = dropWhile (\<lambda>c. c \<notin> set ''/?#'') rest;
             path = takeWhile (\<lambda>c. c \<notin> set ''?#'') after_host;
             after_path = dropWhile (\<lambda>c. c \<notin> set ''?#'') after_host;
             query = takeWhile (\<lambda>c. c \<noteq> CHR ''#'') after_path;
             fragment = dropWhile (\<lambda>c. c \<noteq> CHR ''#'') after_path
         in if host = [] then None
            else Some \<lparr>origin = ''https://'' @ host,
                       pathname = (if path = [] then ''/'' else path),
                       search = query, hash = fragment\<rparr>)
      else None)"

definition example_platform :: "fetch_outcome \<Rightarrow> platform" where
  "example_platform outcome =
     \<lparr>fetch = (\<lambda>req. outcome),
      new_URL = example_new_URL,
      JSON_parse = (\<lambda>s. if s = ''null'' then Some JNull
                          else if s = ''{}'' then Some (JObj []) else None),
      JSON_stringify = (\<lambda>v. ''{}''),
      base64 = (\<lambda>s. ''dXNlcjp0b2tlbg==''),
      encodeURIComponent = (\<lambda>s. s),
      URLSearchParams_toString = (\<lambda>ps. join ''&'' (map (\<lambda>(k, v). k @ ''='' @ v) ps))\<rparr>"

definition example_config :: JiraConfig where
  "example_config =
     \<lparr>baseUrl = ''https://jira.example'', userEmail = ''user'', apiToken = ''token''\<rparr>"

definition example_metadata :: ErrorMetadata where
  "example_metadata =
     \<lparr>toolName = ''jira_get_issue'', operation = ''getIssue'', correlationId = ''c-1''\<rparr>"

definition example_options :: "string option \<Rightarrow> JiraRequestOptions" where
  "example_options nf =
     \<lparr>jira_config = example_config, jira_path = ''/rest/api/3/issue/PROJ-1?fields=summary'',
      jira_method = None, jira_body = None, jira_metadata = example_metadata,
      notFoundMessage = nf\<rparr>"

definition leaky_options :: HttpRequestOptions where
  "leaky_options =
     \<lparr>http_url = ''https://jira.example/rest/api/3/issue/PROJ-1?fields=summary&token=s3cr3t#frag'',
      http_method = None, http_headers = None, http_body = None, http_timeoutMs = None,
      http_metadata = example_metadata\<rparr>"

definition example_schema :: "JiraIssueResponse ZodType" where
  "example_schema data =
     (if data = JNull then
        Inl [\<lparr>issue_path = [PKey ''fields'', PKey ''summary''], issue_message = ''Required''\<rparr>,
             \<lparr>issue_path = [PKey ''key''], issue_message = ''Expected string, received number''\<rparr>]
      else Inr issue_PROJ)"

definition example_clock :: clock where
  "example_clock = \<lparr>startTime = 1000, endTime = 1042\<rparr>"

definition example_update_fields :: "(string \<times> jsval) list" where
  "example_update_fields =
     [(''summary'', JStr ''New title''),
      (''description'', JStr (''First'' @ [LF, LF] @ ''Second'')),
      (''priority'', JObj [(''name'', JStr ''High'')])]"


section \<open>The log sink redacts\<close>

lemma map_of_sanitise_loop:
  "distinct (map fst es) \<Longrightarrow>
   map_of (sanitise_loop es result) k =
     (case map_of es k of
        None \<Rightarrow> map_of result k
      | Some v \<Rightarrow> if k = ''__proto__'' then map_of result k
                  else Some (if is_sensitive k then REDACTED else sanitise v))"
proof (induction es arbitrary: result)
  case Nil
  then show ?case by simp
next
  case (Cons e es)
  obtain key val where e: "e = (key, val)" by (cases e)
  from Cons.prems have d: "distinct (map fst es)" and nk: "key \<notin> fst ` set es"
    by (auto simp: e)
  from nk have none: "map_of es key = None"
    by (simp add: map_of_eq_None_iff)
  show ?case
  proof (cases "k = key")
    case True
    from none True have "map_of es k = None" by simp
    then show ?thesis
      by (simp add: e True [symmetric] Cons.IH [OF d] set_prop_def update_conv')
  next
    case False
    then show ?thesis
      by (simp add: e Cons.IH [OF d] set_prop_def update_conv' split: option.splits)
  qed
qed

lemma wf_js_map_of: "wf_js (JObj es) \<Longrightarrow> map_of es k = Some x \<Longrightarrow> wf_js x"
  by (auto dest!: map_of_SomeD)

lemma wf_js_get_path: "wf_js v \<Longrightarrow> get_path p v = Some w \<Longrightarrow> wf_js w"
proof (induction p v rule: get_path.induct)
  case (2 k p es)
  then show ?case
    by (auto split: option.splits dest!: map_of_SomeD)
next
  case (3 i p vs)
  then show ?case
    by (auto split: if_splits)
qed simp_all

lemma get_path_sanitise:
  "wf_js v \<Longrightarrow> list_all plain_step p \<Longrightarrow>
   get_path p (sanitise v) = map_option sanitise (get_path p v)"
proof (induction p arbitrary: v)
  case Nil
  then show ?case by simp
next
  case (Cons s p)
  show ?case
  proof (cases s)
    case (Key k)
    with Cons.prems have k: "\<not> is_sensitive k" "k \<noteq> ''__proto__''" and p: "list_all plain_step p"
      by simp_all
    show ?thesis
    proof (cases v)
      case (JObj es)
      with Cons.prems have d: "distinct (map fst es)" by simp
      show ?thesis
      proof (cases "map_of es k")
        case None
        then show ?thesis by (simp add: Key JObj map_of_sanitise_loop [OF d])
      next
        case (Some x)
        with Cons.prems JObj have "wf_js x" by (metis wf_js_map_of)
        then show ?thesis
          using Some k by (simp add: Key JObj map_of_sanitise_loop [OF d] Cons.IH [OF _ p])
      qed
    qed (simp_all add: Key)
  next
    case (Idx i)
    with Cons.prems have p: "list_all plain_step p" by simp
    show ?thesis
    proof (cases v)
      case (JArr vs)
      with Cons.prems have "\<And>j. j < length vs \<Longrightarrow> wf_js (vs ! j)" by simp
      then show ?thesis
        by (simp add: Idx JArr Cons.IH [OF _ p])
    qed (simp_all add: Idx)
  qed
qed

lemma get_path_append:
  "get_path (p @ q) v = (case get_path p v of None \<Rightarrow> None | Some w \<Rightarrow> get_path q w)"
proof (induction p v rule: get_path.induct)
qed (simp_all split: option.splits)

lemma sanitise_output_redacted:
  "wf_js v \<Longrightarrow> is_sensitive k \<Longrightarrow> get_path (p @ [Key k]) (sanitise v) = Some x \<Longrightarrow> x = REDACTED"
proof (induction p arbitrary: v)
  case Nil
  then show ?case
    by (cases v) (auto simp: map_of_sanitise_loop split: option.splits if_splits)
next
  case (Cons s p)
  show ?case
  proof (cases s)
    case (Key j)
    show ?thesis
    proof (cases v)
      case (JObj es)
      with Cons.prems have d: "distinct (map fst es)" by simp
      from Cons.prems(3) obtain y where y: "map_of (sanitise_loop es []) j = Some y"
        and g: "get_path (p @ [Key k]) y = Some x"
        by (auto simp: Key JObj split: option.splits)
      from y obtain w where w: "map_of es j = Some w"
        and yy: "y = (if is_sensitive j then REDACTED else sanitise w)"
        by (auto simp: map_of_sanitise_loop [OF d] split: option.splits if_splits)
      have "\<not> is_sensitive j"
      proof
        assume "is_sensitive j"
        with yy g show False by (cases p) (simp_all add: REDACTED_def)
      qed
      with yy have "y = sanitise w" by simp
      moreover from w Cons.prems(1) JObj have "wf_js w" by (metis wf_js_map_of)
      ultimately show ?thesis using Cons.IH [of w] Cons.prems(2) g by simp
    qed (use Cons.prems in \<open>simp_all add: Key\<close>)
  next
    case (Idx i)
    show ?thesis
    proof (cases v)
      case (JArr vs)
      with Cons.prems show ?thesis
        by (auto simp: Idx split: if_splits intro: Cons.IH)
    qed (use Cons.prems in \<open>simp_all add: Idx\<close>)
  qed
qed

text \<open>
  Claim C2, as the code has it. For every value \<open>v\<close> handed to \<open>sanitise\<close>:
  (1) an entry with a denylisted key that \<open>sanitise\<close> reaches (every key above it is
  off the denylist and is not \<open>__proto__\<close>) holds \<open>"[REDACTED]"\<close> in the result, at any
  depth and through arrays; anything below such an entry (\<open>r\<close>) is replaced together
  with it, so a denylisted entry nested under a denylisted key is not redacted in place
  but removed with its parent;
  (2) in the result, every entry with a denylisted key holds \<open>"[REDACTED]"\<close>;
  (3) a scalar, \<open>null\<close> or \<open>undefined\<close> at a position that \<open>sanitise\<close> reaches (the
  value itself included) is unchanged in the result.
\<close>

theorem sanitise_redacts_reached_entries:
  assumes "wf_js v"
  shows "(list_all plain_step q \<and> is_sensitive k \<and> get_path (q @ Key k # r) v = Some x
            \<longrightarrow> get_path (q @ [Key k]) (sanitise v) = Some REDACTED)
       \<and> (is_sensitive k' \<and> get_path (p' @ [Key k']) (sanitise v) = Some y \<longrightarrow> y = REDACTED)
       \<and> (list_all plain_step p \<and> is_scalar s \<and> get_path p v = Some s
            \<longrightarrow> get_path p (sanitise v) = Some s)"
proof (intro conjI impI)
  assume a: "list_all plain_step q \<and> is_sensitive k \<and> get_path (q @ Key k # r) v = Some x"
  then obtain w where w: "get_path q v = Some w" and kr: "get_path (Key k # r) w = Some x"
    by (auto simp: get_path_append split: option.splits)
  from kr obtain es z where es: "w = JObj es" and z: "map_of es k = Some z"
    by (cases w) (auto split: option.splits)
  from a have q: "list_all plain_step q" and k: "is_sensitive k" by simp_all
  have qs: "get_path q (sanitise v) = Some (sanitise w)"
    using get_path_sanitise [OF assms q] w by simp
  have wfw: "wf_js w"
    using assms w by (rule wf_js_get_path)
  then have d: "distinct (map fst es)" by (simp add: es)
  have kp: "k \<noteq> ''__proto__''"
  proof
    assume "k = ''__proto__''"
    with k have "is_sensitive ''__proto__''" by simp
    then show False by code_simp
  qed
  show "get_path (q @ [Key k]) (sanitise v) = Some REDACTED"
    using k kp z by (simp add: get_path_append qs es map_of_sanitise_loop [OF d])
next
  assume "is_sensitive k' \<and> get_path (p' @ [Key k']) (sanitise v) = Some y"
  then show "y = REDACTED"
    using sanitise_output_redacted [OF assms, of k' p' y] by simp
next
  assume a: "list_all plain_step p \<and> is_scalar s \<and> get_path p v = Some s"
  then have "get_path p (sanitise v) = Some (sanitise s)"
    using get_path_sanitise [OF assms, of p] by simp
  moreover from a have "sanitise s = s" by (cases s) simp_all
  ultimately show "get_path p (sanitise v) = Some s" by simp
qed

theorem sanitise_redacts_reached_entries_witness:
  "wf_js log_example
   \<and> get_path [Key ''config'', Key ''apiToken''] log_example = Some (JStr ''sk_live'')
   \<and> get_path [Key ''config'', Key ''apiToken''] (sanitise log_example) = Some REDACTED
   \<and> get_path [Key ''items'', Idx 1, Key ''Password'', Key ''hint''] log_example = Some (JStr ''pw'')
   \<and> get_path [Key ''items'', Idx 1, Key ''Password''] (sanitise log_example) = Some REDACTED
   \<and> get_path [Key ''items'', Idx 0] (sanitise log_example) = Some (JNum 7)
   \<and> get_path [Key ''message''] (sanitise log_example) = Some (JStr ''started'')
   \<and> JStr ''[REDACTED]'' = REDACTED"
proof -
  have wf: "wf_js log_example" by code_simp
  have q1: "list_all plain_step [Key ''config'']" by code_simp
  have k1: "is_sensitive ''apiToken''" by code_simp
  have g1: "get_path ([Key ''config''] @ Key ''apiToken'' # []) log_example = Some (JStr ''sk_live'')"
    by code_simp
  have q2: "list_all plain_step [Key ''items'', Idx 1]" by code_simp
  have k2: "is_sensitive ''Password''" by code_simp
  have g2: "get_path ([Key ''items'', Idx 1] @ Key ''Password'' # [Key ''hint'']) log_example
              = Some (JStr ''pw'')"
    by code_simp
  have p3: "list_all plain_step [Key ''items'', Idx 0]" by code_simp
  have g3: "get_path [Key ''items'', Idx 0] log_example = Some (JNum 7)" by code_simp
  have p4: "list_all plain_step [Key ''message'']" by code_simp
  have g4: "get_path [Key ''message''] log_example = Some (JStr ''started'')" by code_simp
  have r1: "get_path ([Key ''config''] @ [Key ''apiToken'']) (sanitise log_example) = Some REDACTED"
    using sanitise_redacts_reached_entries [OF wf] q1 k1 g1 by blast
  have r2: "get_path ([Key ''items'', Idx 1] @ [Key ''Password'']) (sanitise log_example) = Some REDACTED"
    using sanitise_redacts_reached_entries [OF wf] q2 k2 g2 by blast
  have r3: "get_path [Key ''items'', Idx 0] (sanitise log_example) = Some (JNum 7)"
    using sanitise_redacts_reached_entries [OF wf, where p = "[Key ''items'', Idx 0]" and s = "JNum 7"] p3 g3
    by simp
  have r4: "get_path [Key ''message''] (sanitise log_example) = Some (JStr ''started'')"
    using sanitise_redacts_reached_entries [OF wf, where p = "[Key ''message'']" and s = "JStr ''started''"] p4 g4
    by simp
  have k5: "is_sensitive ''Password''" by code_simp
  have g5: "get_path ([Key ''items'', Idx 1] @ [Key ''Password'']) (sanitise log_example)
              = Some (JStr ''[REDACTED]'')"
    by code_simp
  have r5: "JStr ''[REDACTED]'' = REDACTED"
    using sanitise_redacts_reached_entries [OF wf] k5 g5 by blast
  from wf g1 g2 r1 r2 r3 r4 r5 show ?thesis by simp
qed

text \<open>
  The claim as written fails where a denylisted entry lies under a denylisted key: in
  \<open>{token: {apiToken: "sk_live"}}\<close> the entry \<open>apiToken\<close> does not come out holding
  \<open>"[REDACTED]"\<close>; its parent's value does, and the entry is gone.
\<close>

theorem sanitise_nested_sensitive_counterexample:
  "is_sensitive ''apiToken''
   \<and> get_path [Key ''token'', Key ''apiToken'']
        (JObj [(''token'', JObj [(''apiToken'', JStr ''sk_live'')])]) = Some (JStr ''sk_live'')
   \<and> sanitise (JObj [(''token'', JObj [(''apiToken'', JStr ''sk_live'')])])
        = JObj [(''token'', JStr ''[REDACTED]'')]
   \<and> get_path [Key ''token'', Key ''apiToken'']
        (sanitise (JObj [(''token'', JObj [(''apiToken'', JStr ''sk_live'')])])) \<noteq> Some REDACTED"
  by code_simp

section \<open>The rich-text reducer\<close>

lemma join_empty_sep: "join [] xs = concat xs"
  by (induction xs rule: induct_list012) simp_all



lemma split_on_append_sep:
  "c \<notin> set l \<Longrightarrow> split_on c (l @ c # s) = l # split_on c s"
  by (induction l) (auto split: list.splits)





lemma extract_container:
  assumes "get_prop es ''type'' = JStr t" and "t \<noteq> ''text''" and "t \<noteq> ''hardBreak''"
    and "get_prop es ''content'' = JArr cs"
  shows "extractTextFromAdf (JObj es) =
     (let childTexts = map extractTextFromAdf cs in
      if t = ''doc'' then join [LF, LF] childTexts
      else if t = ''paragraph'' \<or> t = ''heading'' then join [] childTexts
      else if t = ''bulletList'' then join [LF] childTexts
      else if t = ''orderedList'' then
        join [LF]
          (map (\<lambda>(index, child).
                  let text = extractTextFromAdf child in
                  if startsWith text ''- ''
                  then show_nat (index + 1) @ ''. '' @ drop 2 text
                  else show_nat (index + 1) @ ''. '' @ text)
             (enumerate 0 cs))
      else if t = ''listItem'' then ''- '' @ join [] childTexts
      else if t = ''codeBlock'' then join [] childTexts
      else if t = ''blockquote'' then
        join [LF] (map (\<lambda>line. ''> '' @ line) (split_on LF (join [] childTexts)))
      else join [] childTexts)"
  using assms by (subst extractTextFromAdf.simps) simp

text \<open>The recursion of the reducer is well-founded at every value, well-formed or not:
  every call terminates.\<close>

lemma extractTextFromAdf_terminates: "extractTextFromAdf_dom node"
proof -
  have "All extractTextFromAdf_dom"
  proof (rule "extractTextFromAdf.termination" [of "measure size"], goal_cases)
    case 1
    show ?case by simp
  next
    case 2
    then show ?case
      by (auto simp: get_prop_def split: option.splits dest: size_content_child)
  next
    case 3
    then show ?case
      by (auto simp: get_prop_def in_set_enumerate_eq split: option.splits
          intro!: size_content_nth)
  qed
  then show ?thesis by simp
qed

text \<open>The reducer on a bounded stack: it returns what \<open>extractTextFromAdf\<close> computes when
  the stack admits the nesting of the tree, and throws \<open>RangeError\<close> when it does not.\<close>

lemma foldr_max_le: "(foldr max xs 0 \<le> n) = (\<forall>x \<in> set xs. x \<le> (n::nat))"
  by (induction xs) auto

lemma sequence_map_Inr:
  "(\<And>x. x \<in> set xs \<Longrightarrow> f x = Inr (g x)) \<Longrightarrow> sequence (map f xs) = Inr (map g xs)"
  by (induction xs) simp_all

lemma sequence_map_Inl:
  fixes f :: "'b \<Rightarrow> js_exception + 'a"
  shows "x \<in> set xs \<Longrightarrow> f x = Inl e \<Longrightarrow> sequence (map f xs) = Inl RangeError"
proof (induction xs)
  case Nil
  then show ?case by simp
next
  case (Cons y ys)
  have all: "\<And>e' :: js_exception. e' = RangeError" by (case_tac e') simp
  show ?case
  proof (cases "f y")
    case (Inl e')
    then show ?thesis using all [of e'] by simp
  next
    case (Inr v)
    with Cons have "x \<in> set ys" by auto
    with Cons have "sequence (map f ys) = Inl RangeError" by simp
    with Inr show ?thesis by simp
  qed
qed

lemma call_depth_container:
  assumes "get_prop es ''type'' = JStr t" and "t \<noteq> ''text''" and "t \<noteq> ''hardBreak''"
    and "get_prop es ''content'' = JArr cs"
  shows "call_depth (JObj es) = Suc (foldr max (map call_depth cs) 0)"
  using assms by (subst call_depth.simps) simp

lemma call_depth_leaf:
  assumes "\<not> (\<exists>es t cs. node = JObj es \<and> get_prop es ''type'' = JStr t \<and> t \<noteq> ''text''
              \<and> t \<noteq> ''hardBreak'' \<and> get_prop es ''content'' = JArr cs)"
  shows "call_depth node = 1"
  using assms by (subst call_depth.simps) (auto split: jsval.splits)

lemma extract_leaf:
  assumes "\<not> (\<exists>es t cs. node = JObj es \<and> get_prop es ''type'' = JStr t \<and> t \<noteq> ''text''
              \<and> t \<noteq> ''hardBreak'' \<and> get_prop es ''content'' = JArr cs)"
  shows "extractTextFromAdf_stack (Suc frames) node = Inr (extractTextFromAdf node)"
  using assms by (subst extractTextFromAdf.simps) (auto split: jsval.splits)

lemma call_depth_pos: "0 < call_depth node"
proof (cases "\<exists>es t cs. node = JObj es \<and> get_prop es ''type'' = JStr t \<and> t \<noteq> ''text''
              \<and> t \<noteq> ''hardBreak'' \<and> get_prop es ''content'' = JArr cs")
  case True
  then show ?thesis by (auto simp: call_depth_container)
next
  case False
  then show ?thesis by (simp add: call_depth_leaf)
qed

lemma stack_container:
  assumes "get_prop es ''type'' = JStr t" and "t \<noteq> ''text''" and "t \<noteq> ''hardBreak''"
    and "get_prop es ''content'' = JArr cs"
    and "\<And>c. c \<in> set cs \<Longrightarrow> extractTextFromAdf_stack frames c = Inr (extractTextFromAdf c)"
  shows "extractTextFromAdf_stack (Suc frames) (JObj es) = Inr (extractTextFromAdf (JObj es))"
proof -
  have s1: "sequence (map (extractTextFromAdf_stack frames) cs) = Inr (map extractTextFromAdf cs)"
    using assms(5) by (rule sequence_map_Inr)
  have s2: "sequence
              (map (\<lambda>(index, child).
                      case extractTextFromAdf_stack frames child of
                        Inl e \<Rightarrow> Inl e
                      | Inr text \<Rightarrow>
                          Inr (if startsWith text ''- ''
                               then show_nat (index + 1) @ ''. '' @ drop 2 text
                               else show_nat (index + 1) @ ''. '' @ text))
                 (enumerate 0 cs))
            = Inr (map (\<lambda>(index, child).
                          let text = extractTextFromAdf child in
                          if startsWith text ''- ''
                          then show_nat (index + 1) @ ''. '' @ drop 2 text
                          else show_nat (index + 1) @ ''. '' @ text)
                     (enumerate 0 cs))"
  proof (rule sequence_map_Inr)
    fix x assume "x \<in> set (enumerate 0 cs)"
    obtain i c where x: "x = (i, c)" by (cases x)
    with \<open>x \<in> set (enumerate 0 cs)\<close> have "c \<in> set cs"
      by (auto simp: in_set_enumerate_eq)
    then have "extractTextFromAdf_stack frames c = Inr (extractTextFromAdf c)"
      using assms(5) by simp
    then show "(case x of (index, child) \<Rightarrow>
                   case extractTextFromAdf_stack frames child of
                     Inl e \<Rightarrow> Inl e
                   | Inr text \<Rightarrow>
                       Inr (if startsWith text ''- ''
                            then show_nat (index + 1) @ ''. '' @ drop 2 text
                            else show_nat (index + 1) @ ''. '' @ text))
              = Inr (case x of (index, child) \<Rightarrow>
                          let text = extractTextFromAdf child in
                          if startsWith text ''- ''
                          then show_nat (index + 1) @ ''. '' @ drop 2 text
                          else show_nat (index + 1) @ ''. '' @ text)"
      by (simp add: x Let_def)
  qed
  show ?thesis
    using assms(1-4)
    by (simp add: extract_container [OF assms(1-4)] s1 s2 Let_def)
qed

lemma stack_returns:
  "call_depth node \<le> frames \<Longrightarrow>
   extractTextFromAdf_stack frames node = Inr (extractTextFromAdf node)"
proof (induction frames arbitrary: node)
  case 0
  with call_depth_pos [of node] show ?case by simp
next
  case (Suc frames)
  show ?case
  proof (cases "\<exists>es t cs. node = JObj es \<and> get_prop es ''type'' = JStr t \<and> t \<noteq> ''text''
              \<and> t \<noteq> ''hardBreak'' \<and> get_prop es ''content'' = JArr cs")
    case False
    then show ?thesis by (rule extract_leaf)
  next
    case True
    then obtain es t cs where n: "node = JObj es" and t: "get_prop es ''type'' = JStr t"
      "t \<noteq> ''text''" "t \<noteq> ''hardBreak''" and c: "get_prop es ''content'' = JArr cs"
      by blast
    from Suc.prems have "\<forall>x \<in> set cs. call_depth x \<le> frames"
      by (simp add: n call_depth_container [OF t c] foldr_max_le)
    then have "\<And>x. x \<in> set cs \<Longrightarrow> extractTextFromAdf_stack frames x = Inr (extractTextFromAdf x)"
      using Suc.IH by blast
    then show ?thesis
      unfolding n by (rule stack_container [OF t c])
  qed
qed

lemma stack_overflows:
  "frames < call_depth node \<Longrightarrow> extractTextFromAdf_stack frames node = Inl RangeError"
proof (induction frames arbitrary: node)
  case 0
  show ?case by simp
next
  case (Suc frames)
  show ?case
  proof (cases "\<exists>es t cs. node = JObj es \<and> get_prop es ''type'' = JStr t \<and> t \<noteq> ''text''
              \<and> t \<noteq> ''hardBreak'' \<and> get_prop es ''content'' = JArr cs")
    case False
    then have "call_depth node = 1" by (rule call_depth_leaf)
    with Suc.prems show ?thesis by simp
  next
    case True
    then obtain es t cs where n: "node = JObj es" and t: "get_prop es ''type'' = JStr t"
      "t \<noteq> ''text''" "t \<noteq> ''hardBreak''" and c: "get_prop es ''content'' = JArr cs"
      by blast
    from Suc.prems have "\<not> foldr max (map call_depth cs) 0 \<le> frames"
      by (simp add: n call_depth_container [OF t c])
    then have "\<not> (\<forall>x \<in> set cs. call_depth x \<le> frames)"
      by (simp add: foldr_max_le)
    then obtain x where x: "x \<in> set cs" and "frames < call_depth x"
      by (auto simp: not_le)
    then have "extractTextFromAdf_stack frames x = Inl RangeError"
      using Suc.IH by blast
    with x have "sequence (map (extractTextFromAdf_stack frames) cs) = Inl RangeError"
      by (rule sequence_map_Inl)
    then show ?thesis
      using t c by (simp add: n)
  qed
qed

lemma call_depth_nest: "call_depth (nest n) = Suc n"
proof (induction n)
  case 0
  show ?case by (subst call_depth.simps) (simp add: text_node_def get_prop_def)
next
  case (Suc n)
  have "call_depth (nest (Suc n)) = Suc (foldr max (map call_depth [nest n]) 0)"
    unfolding nest.simps container_def
    by (rule call_depth_container [where t = "''paragraph''"]) (simp_all add: get_prop_def)
  with Suc show ?case by simp
qed

lemma well_formed_nest: "well_formed_adf (nest n)"
proof (induction n)
  case 0
  show ?case by (subst well_formed_adf.simps) (simp add: text_node_def)
next
  case (Suc n)
  then show ?case by (subst well_formed_adf.simps) (simp add: container_def)
qed

lemma extract_nest: "extractTextFromAdf (nest n) = ''x''"
proof (induction n)
  case 0
  show ?case by (subst extractTextFromAdf.simps) (simp add: text_node_def get_prop_def)
next
  case (Suc n)
  have "extractTextFromAdf (nest (Suc n)) = join [] (map extractTextFromAdf [nest n])"
    unfolding nest.simps container_def
    by (subst extract_container [where t = "''paragraph''" and cs = "[nest n]"])
       (simp_all add: get_prop_def)
  with Suc show ?case by simp
qed

text \<open>
  Claim C7, as the code has it. On a stack that admits \<open>frames\<close> nested calls, the call of
  \<open>extractTextFromAdf\<close> on a tree (well-formed or not) returns without raising exactly when
  the nesting of the tree is within \<open>frames\<close>, and on a deeper tree it raises \<open>RangeError\<close>.
  A node whose \<open>type\<close> is a string outside the known types and whose \<open>content\<close> is an
  array reduces to the concatenation of its reduced children, in order: nothing of the
  children is dropped.
\<close>

theorem extractTextFromAdf_returns_within_stack:
  "(call_depth node \<le> frames \<longrightarrow>
      extractTextFromAdf_stack frames node = Inr (extractTextFromAdf node))
   \<and> (frames < call_depth node \<longrightarrow> extractTextFromAdf_stack frames node = Inl RangeError)
   \<and> (get_prop es ''type'' = JStr t \<and> t \<notin> set KNOWN_NODE_TYPES \<and> get_prop es ''content'' = JArr cs \<longrightarrow>
      extractTextFromAdf (JObj es) = concat (map extractTextFromAdf cs)
      \<and> (call_depth (JObj es) \<le> frames \<longrightarrow>
           extractTextFromAdf_stack frames (JObj es) = Inr (concat (map extractTextFromAdf cs))))"
proof (intro conjI impI)
  assume "call_depth node \<le> frames"
  then show "extractTextFromAdf_stack frames node = Inr (extractTextFromAdf node)"
    by (rule stack_returns)
next
  assume "frames < call_depth node"
  then show "extractTextFromAdf_stack frames node = Inl RangeError"
    by (rule stack_overflows)
next
  assume a: "get_prop es ''type'' = JStr t \<and> t \<notin> set KNOWN_NODE_TYPES \<and> get_prop es ''content'' = JArr cs"
  then have "t \<noteq> ''text''" "t \<noteq> ''hardBreak''" "t \<noteq> ''doc''" "t \<noteq> ''paragraph''"
    "t \<noteq> ''heading''" "t \<noteq> ''bulletList''" "t \<noteq> ''orderedList''" "t \<noteq> ''listItem''"
    "t \<noteq> ''codeBlock''" "t \<noteq> ''blockquote''"
    by (auto simp: KNOWN_NODE_TYPES_def)
  then show eq: "extractTextFromAdf (JObj es) = concat (map extractTextFromAdf cs)"
    using a extract_container [of es t cs] by (simp add: join_empty_sep)
  assume "call_depth (JObj es) \<le> frames"
  then show "extractTextFromAdf_stack frames (JObj es) = Inr (concat (map extractTextFromAdf cs))"
    using stack_returns [of "JObj es" frames] eq by simp
qed

theorem extractTextFromAdf_returns_within_stack_witness:
  "call_depth unknown_example = 3
   \<and> extractTextFromAdf_stack 3 unknown_example = Inr ''see @kim''
   \<and> extractTextFromAdf_stack 2 unknown_example = Inl RangeError
   \<and> extractTextFromAdf unknown_example = ''see @kim''"
proof -
  let ?es = "[(''type'', JStr ''mediaGroup''),
              (''content'', JArr [text_node ''see '', container ''mention'' [text_node ''@kim'']])]"
  let ?cs = "[text_node ''see '', container ''mention'' [text_node ''@kim'']]"
  note T = extractTextFromAdf_returns_within_stack
  have d: "call_depth unknown_example = 3" by code_simp
  have u: "get_prop ?es ''type'' = JStr ''mediaGroup'' \<and> ''mediaGroup'' \<notin> set KNOWN_NODE_TYPES
           \<and> get_prop ?es ''content'' = JArr ?cs"
    by code_simp
  have v: "concat (map extractTextFromAdf ?cs) = ''see @kim''" by code_simp
  from T [of unknown_example 3] d
  have c1: "extractTextFromAdf_stack 3 unknown_example = Inr (extractTextFromAdf unknown_example)"
    by simp
  from T [of unknown_example 2] d
  have c2: "extractTextFromAdf_stack 2 unknown_example = Inl RangeError"
    by simp
  from T [of _ _ ?es "''mediaGroup''" ?cs] u v
  have c3: "extractTextFromAdf unknown_example = ''see @kim''"
    by (simp add: unknown_example_def)
  from d c1 c2 c3 show ?thesis by simp
qed

text \<open>
  The claim as written (the reducer never raises on a well-formed tree) fails on deep
  trees: whatever the stack admits, the well-formed chain of that many paragraphs around
  a text leaf is one call too deep.
\<close>

lemma nest_exceeds_every_stack:
  "well_formed_adf (nest frames) \<and> extractTextFromAdf_stack frames (nest frames) = Inl RangeError"
  using stack_overflows [of frames "nest frames"] by (simp add: call_depth_nest well_formed_nest)

text \<open>With a stack that admits 10000 nested calls:\<close>

theorem extractTextFromAdf_deep_tree_counterexample:
  "well_formed_adf (nest 10000)
   \<and> extractTextFromAdf_stack 10000 (nest 10000) = Inl RangeError"
  by (rule nest_exceeds_every_stack)




section \<open>The issue formatter and its round trip\<close>

lemma split_at_colon_key:
  "\<not> has_colon_space k \<Longrightarrow> split_at_colon (k @ '': '' @ s) = Some (k, s)"
proof (induction k)
  case Nil
  then show ?case by (simp add: startsWith_def)
next
  case (Cons c k)
  then have "\<not> startsWith (c # k) '': ''" and k: "\<not> has_colon_space k" by simp_all
  then have "\<not> startsWith ((c # k) @ '': '' @ s) '': ''"
    by (cases k) (auto simp: startsWith_def)
  with Cons.IH [OF k] show ?case by simp
qed

text \<open>
  Claim C9, as the code has it. Formatting a validated issue and re-deriving key, summary
  and status from the text recovers them exactly when the key contains neither a newline
  nor \<open>": "\<close> and the summary, the issue type name and the status name contain no
  newline (whether or not optional fields are null).
\<close>

theorem formatJiraIssue_roundtrip:
  assumes "LF \<notin> set (issue_key issue)" and "\<not> has_colon_space (issue_key issue)"
    and "LF \<notin> set (summary (issue_fields issue))"
    and "LF \<notin> set (issuetype_name (issue_fields issue))"
    and "LF \<notin> set (status_name (issue_fields issue))"
  shows "rederive (formatJiraIssue issue)
           = Some (issue_key issue, summary (issue_fields issue), status_name (issue_fields issue))"
proof -
  define l0 where "l0 = issue_key issue @ '': '' @ summary (issue_fields issue)"
  define l2 where "l2 = ''Type:     '' @ issuetype_name (issue_fields issue)"
  define l3 where "l3 = ''Status:   '' @ status_name (issue_fields issue)"
  obtain rest where f: "formatJiraIssue issue = l0 @ LF # ([] @ LF # (l2 @ LF # (l3 @ LF # rest)))"
    by (simp add: formatJiraIssue_def Let_def l0_def l2_def l3_def)
  have n0: "LF \<notin> set l0" using assms(1,3) by (auto simp: l0_def LF_def)
  have n2: "LF \<notin> set l2" using assms(4) by (auto simp: l2_def LF_def)
  have n3: "LF \<notin> set l3" using assms(5) by (auto simp: l3_def LF_def)
  have lines: "split_on LF (formatJiraIssue issue) = l0 # [] # l2 # l3 # split_on LF rest"
    unfolding f using n0 n2 n3 by (simp only: split_on_append_sep empty_iff list.set not_False_eq_True)
  have s: "split_at_colon l0 = Some (issue_key issue, summary (issue_fields issue))"
    unfolding l0_def using assms(2) by (rule split_at_colon_key)
  show ?thesis
    by (simp add: rederive_def lines s) (simp add: l3_def startsWith_def)
qed

theorem formatJiraIssue_roundtrip_witness:
  "rederive (formatJiraIssue issue_PROJ)
     = Some (''PROJ-123'', ''Login: button unresponsive'', ''In Progress'')"
proof -
  have "LF \<notin> set (issue_key issue_PROJ)" "\<not> has_colon_space (issue_key issue_PROJ)"
    "LF \<notin> set (summary (issue_fields issue_PROJ))"
    "LF \<notin> set (issuetype_name (issue_fields issue_PROJ))"
    "LF \<notin> set (status_name (issue_fields issue_PROJ))"
    by code_simp+
  from formatJiraIssue_roundtrip [OF this] show ?thesis
    by (simp add: issue_PROJ_def)
qed

text \<open>
  The claim as written fails: the schema admits any string, and two validated issues with
  no null optional field and different keys (\<open>"A"\<close> with summary \<open>"B: C"\<close>, and \<open>"A: B"\<close>
  with summary \<open>"C"\<close>) format to the same text, so no re-derivation recovers both.
\<close>

theorem formatJiraIssue_collision_counterexample:
  "no_null_fields issue_A \<and> no_null_fields issue_B
   \<and> formatJiraIssue issue_A = formatJiraIssue issue_B
   \<and> issue_key issue_A \<noteq> issue_key issue_B
   \<and> rederive (formatJiraIssue issue_B) \<noteq> Some (''A: B'', ''C'', ''Open'')"
  by code_simp

section \<open>The domain client classifies the response status\<close>

lemma jiraRequest_responded:
  assumes "fetch pf (http_fetch_request (jira_http_options pf options)) = Responded st responseBody"
  shows "httpRequest pf (jira_http_options pf options) = Inr \<lparr>status = st, body = responseBody\<rparr>"
  using assms by (simp add: httpRequest_def)

text \<open>
  Claim C1. When the upstream answers the request of \<open>jiraRequest\<close> with status \<open>st\<close>:
  401, 403 and 404 return a failure envelope with, respectively, the fixed
  authentication message, the fixed permission message, and the caller's
  \<open>notFoundMessage\<close> or the generic default; any other status outside 200..299 throws an
  \<open>ExternalServiceError\<close> carrying \<open>st\<close> and the call metadata; a status in 200..299 returns
  the success envelope with the parsed body when \<open>JSON.parse\<close> succeeds, and throws an
  \<open>ExternalServiceError\<close> when it fails.
\<close>

theorem jiraRequest_classifies_status:
  assumes "fetch pf (http_fetch_request (jira_http_options pf options)) = Responded st responseBody"
  shows "(st = 401 \<longrightarrow> snd (jiraRequest pf options) =
            Inr (NotOk \<lparr>isError = True,
                        content_text = ''Jira authentication failed. Check the configured credentials.''\<rparr>))
       \<and> (st = 403 \<longrightarrow> snd (jiraRequest pf options) =
            Inr (NotOk \<lparr>isError = True,
                        content_text = ''Permission denied when accessing Jira. The configured user may lack access.''\<rparr>))
       \<and> (st = 404 \<longrightarrow> snd (jiraRequest pf options) =
            Inr (NotOk \<lparr>isError = True,
                        content_text =
                          (case notFoundMessage options of
                             Some m \<Rightarrow> m
                           | None \<Rightarrow> ''The requested Jira resource was not found. Check the identifier and try again.'')\<rparr>))
       \<and> (st \<noteq> 401 \<and> st \<noteq> 403 \<and> st \<noteq> 404 \<and> (st < 200 \<or> 300 \<le> st) \<longrightarrow>
            (\<exists>msg. snd (jiraRequest pf options) =
               Inl (ExternalServiceError msg (jira_metadata options) (Some st))))
       \<and> (200 \<le> st \<and> st < 300 \<longrightarrow>
            (case JSON_parse pf responseBody of
               Some data \<Rightarrow> snd (jiraRequest pf options) = Inr (Ok data)
             | None \<Rightarrow>
                 (\<exists>msg sc. snd (jiraRequest pf options) =
                    Inl (ExternalServiceError msg (jira_metadata options) sc))))"
  by (simp add: jiraRequest_def jiraRequest_responded [OF assms] Let_def split: option.splits)

theorem jiraRequest_classifies_status_witness:
  "snd (jiraRequest (example_platform (Responded 401 ''denied'')) (example_options None)) =
     Inr (NotOk \<lparr>isError = True,
                 content_text = ''Jira authentication failed. Check the configured credentials.''\<rparr>)
   \<and> snd (jiraRequest (example_platform (Responded 403 ''denied'')) (example_options None)) =
     Inr (NotOk \<lparr>isError = True,
                 content_text = ''Permission denied when accessing Jira. The configured user may lack access.''\<rparr>)
   \<and> snd (jiraRequest (example_platform (Responded 404 ''gone'')) (example_options (Some ''Jira issue PROJ-1 was not found.''))) =
     Inr (NotOk \<lparr>isError = True, content_text = ''Jira issue PROJ-1 was not found.''\<rparr>)
   \<and> snd (jiraRequest (example_platform (Responded 404 ''gone'')) (example_options None)) =
     Inr (NotOk \<lparr>isError = True,
                 content_text = ''The requested Jira resource was not found. Check the identifier and try again.''\<rparr>)
   \<and> (\<exists>msg. snd (jiraRequest (example_platform (Responded 500 ''oops'')) (example_options None)) =
          Inl (ExternalServiceError msg example_metadata (Some 500)))
   \<and> snd (jiraRequest (example_platform (Responded 200 ''null'')) (example_options None)) = Inr (Ok JNull)
   \<and> (\<exists>msg sc. snd (jiraRequest (example_platform (Responded 204 [])) (example_options None)) =
          Inl (ExternalServiceError msg example_metadata sc))"
proof -
  have h: "fetch (example_platform (Responded st b))
             (http_fetch_request (jira_http_options (example_platform (Responded st b)) (example_options nf)))
           = Responded st b" for st b nf
    by (simp add: example_platform_def)
  note T = jiraRequest_classifies_status [OF h]
  have md: "jira_metadata (example_options nf) = example_metadata" for nf
    by (simp add: example_options_def)
  have nf: "notFoundMessage (example_options nf) = nf" for nf
    by (simp add: example_options_def)
  have p1: "JSON_parse (example_platform (Responded 200 ''null'')) ''null'' = Some JNull"
    by (simp add: example_platform_def)
  have p2: "JSON_parse (example_platform (Responded 204 [])) [] = None"
    by (simp add: example_platform_def)
  from T [of 401 "''denied''" None] have c1:
    "snd (jiraRequest (example_platform (Responded 401 ''denied'')) (example_options None)) =
     Inr (NotOk \<lparr>isError = True,
                 content_text = ''Jira authentication failed. Check the configured credentials.''\<rparr>)"
    by simp
  from T [of 403 "''denied''" None] have c2:
    "snd (jiraRequest (example_platform (Responded 403 ''denied'')) (example_options None)) =
     Inr (NotOk \<lparr>isError = True,
                 content_text = ''Permission denied when accessing Jira. The configured user may lack access.''\<rparr>)"
    by simp
  from T [of 404 "''gone''" "Some ''Jira issue PROJ-1 was not found.''"] have c3:
    "snd (jiraRequest (example_platform (Responded 404 ''gone'')) (example_options (Some ''Jira issue PROJ-1 was not found.''))) =
     Inr (NotOk \<lparr>isError = True, content_text = ''Jira issue PROJ-1 was not found.''\<rparr>)"
    by (simp add: nf)
  from T [of 404 "''gone''" None] have c4:
    "snd (jiraRequest (example_platform (Responded 404 ''gone'')) (example_options None)) =
     Inr (NotOk \<lparr>isError = True,
                 content_text = ''The requested Jira resource was not found. Check the identifier and try again.''\<rparr>)"
    by (simp add: nf)
  from T [of 500 "''oops''" None] have c5:
    "\<exists>msg. snd (jiraRequest (example_platform (Responded 500 ''oops'')) (example_options None)) =
          Inl (ExternalServiceError msg example_metadata (Some 500))"
    by (simp add: md)
  from T [of 200 "''null''" None] have c6:
    "snd (jiraRequest (example_platform (Responded 200 ''null'')) (example_options None)) = Inr (Ok JNull)"
    by (simp add: p1)
  from T [of 204 "[]" None] have c7:
    "\<exists>msg sc. snd (jiraRequest (example_platform (Responded 204 [])) (example_options None)) =
          Inl (ExternalServiceError msg example_metadata sc)"
    by (simp add: p2 md)
  from c1 c2 c3 c4 c5 c6 c7 show ?thesis by blast
qed

section \<open>A not-found response through the handlers\<close>

lemma jiraRequest_404:
  assumes "fetch pf (http_fetch_request (jira_http_options pf options)) = Responded 404 b"
  shows "jiraRequest pf options =
           ([log_entry Warn ''Jira resource not found'' (jira_metadata options)],
            Inr (NotOk \<lparr>isError = True,
                        content_text =
                          (case notFoundMessage options of
                             Some m \<Rightarrow> m
                           | None \<Rightarrow> ''The requested Jira resource was not found. Check the identifier and try again.'')\<rparr>))"
  by (simp add: jiraRequest_def jiraRequest_responded [OF assms] Let_def)

text \<open>
  Claim C3, as the code has it. When the upstream answers 404, the handlers of
  \<open>jira_get_issue\<close> and \<open>jira_update_issue\<close> return a response flagged as an error whose
  text is the operation's own not-found message, for every key; no error-level line is
  logged, and exactly two warning-level lines are: \<open>"Jira resource not found"\<close> by
  \<open>jiraRequest\<close> and the handler's own warning about the failed request.
\<close>

theorem not_found_returns_message_and_two_warnings:
  assumes "\<And>req. fetch pf req = Responded 404 b"
  shows "snd (registerGetIssue_handler pf config schema uuid clk issueKey) =
           \<lparr>isError = True,
            content_text = ''Jira issue '' @ issueKey @ '' was not found. Check the issue key and try again.''\<rparr>
       \<and> count_level Warn (fst (registerGetIssue_handler pf config schema uuid clk issueKey)) = 2
       \<and> count_level Error (fst (registerGetIssue_handler pf config schema uuid clk issueKey)) = 0
       \<and> snd (registerUpdateIssue_handler pf config uuid clk issueKey args_fields) =
           \<lparr>isError = True,
            content_text = ''Issue '' @ issueKey @ '' was not found. Check the issue key and try again.''\<rparr>
       \<and> count_level Warn (fst (registerUpdateIssue_handler pf config uuid clk issueKey args_fields)) = 2
       \<and> count_level Error (fst (registerUpdateIssue_handler pf config uuid clk issueKey args_fields)) = 0"
proof -
  note r = jiraRequest_404 [OF assms]
  have g: "registerGetIssue_handler pf config schema uuid clk issueKey =
      ([log_entry Info (''Fetching Jira issue '' @ issueKey)
          \<lparr>toolName = ''jira_get_issue'', operation = ''getIssue'', correlationId = uuid\<rparr>,
        log_entry Warn ''Jira resource not found''
          \<lparr>toolName = ''jira_get_issue'', operation = ''getIssue'', correlationId = uuid\<rparr>,
        log_with Warn (''Jira request failed for '' @ issueKey) None (endTime clk - startTime clk)
          \<lparr>toolName = ''jira_get_issue'', operation = ''getIssue'', correlationId = uuid\<rparr>],
       \<lparr>isError = True,
        content_text = ''Jira issue '' @ issueKey @ '' was not found. Check the issue key and try again.''\<rparr>)"
    by (simp add: registerGetIssue_handler_def r Let_def)
  have u: "registerUpdateIssue_handler pf config uuid clk issueKey args_fields =
      ([log_entry Info (''Updating Jira issue '' @ issueKey)
          \<lparr>toolName = ''jira_update_issue'', operation = ''updateIssue'', correlationId = uuid\<rparr>,
        log_entry Warn ''Jira resource not found''
          \<lparr>toolName = ''jira_update_issue'', operation = ''updateIssue'', correlationId = uuid\<rparr>,
        log_with Warn (''Jira update request failed for '' @ issueKey) None (endTime clk - startTime clk)
          \<lparr>toolName = ''jira_update_issue'', operation = ''updateIssue'', correlationId = uuid\<rparr>],
       \<lparr>isError = True,
        content_text = ''Issue '' @ issueKey @ '' was not found. Check the issue key and try again.''\<rparr>)"
    by (simp add: registerUpdateIssue_handler_def registerUpdateIssue_request_def r Let_def)
  show ?thesis
    by (simp add: g u count_level_def log_entry_def log_with_def)
qed

theorem not_found_returns_message_and_two_warnings_witness:
  "snd (registerGetIssue_handler (example_platform (Responded 404 ''{}'')) example_config example_schema
          ''c-1'' example_clock ''PROJ-1'') =
     \<lparr>isError = True,
      content_text = ''Jira issue PROJ-1 was not found. Check the issue key and try again.''\<rparr>
   \<and> count_level Warn (fst (registerGetIssue_handler (example_platform (Responded 404 ''{}'')) example_config
          example_schema ''c-1'' example_clock ''PROJ-1'')) = 2
   \<and> count_level Error (fst (registerUpdateIssue_handler (example_platform (Responded 404 ''{}'')) example_config
          ''c-2'' example_clock ''PROJ-1'' example_update_fields)) = 0"
proof -
  have h: "fetch (example_platform (Responded 404 ''{}'')) req = Responded 404 ''{}''" for req
    by (simp add: example_platform_def)
  from not_found_returns_message_and_two_warnings [OF h, of example_config example_schema "''c-1''"
      example_clock "''PROJ-1''"]
    not_found_returns_message_and_two_warnings [OF h, of example_config example_schema "''c-2''"
      example_clock "''PROJ-1''" example_update_fields]
  show ?thesis by simp
qed

text \<open>
  The claim as written (exactly one warning-level line) fails: the lines of a
  \<open>jira_get_issue\<close> invocation that meets a 404 are one \<open>info\<close> and two \<open>warn\<close>.
\<close>

theorem not_found_single_warning_counterexample:
  "map level (fst (registerGetIssue_handler (example_platform (Responded 404 ''{}'')) example_config
          example_schema ''c-1'' example_clock ''PROJ-1'')) = [Info, Warn, Warn]
   \<and> count_level Warn (fst (registerGetIssue_handler (example_platform (Responded 404 ''{}'')) example_config
          example_schema ''c-1'' example_clock ''PROJ-1'')) \<noteq> 1"
  by (simp add: registerGetIssue_handler_def jiraRequest_def httpRequest_def example_platform_def
      count_level_def log_entry_def log_with_def Let_def)

section \<open>Error messages of the network client\<close>

text \<open>
  With \<open>safeUrl\<close>, the error of a failed call depends on the target URL only through
  its origin and path (or through the fact that it does not parse): two calls that differ
  in query string or fragment only, and fail in the same way, raise the same error.
\<close>

lemma httpRequest_error_ignores_query:
  assumes "map_option (\<lambda>u. (origin u, pathname u)) (new_URL pf (http_url o1))
             = map_option (\<lambda>u. (origin u, pathname u)) (new_URL pf (http_url o2))"
    and "http_timeoutMs o1 = http_timeoutMs o2" and "http_metadata o1 = http_metadata o2"
    and "fetch pf (http_fetch_request o1) = outcome" and "fetch pf (http_fetch_request o2) = outcome"
    and "outcome = AbortError \<or> outcome = Thrown e"
  shows "httpRequest pf o1 = httpRequest pf o2"
proof -
  from assms(1) have "safeUrl pf (http_url o1) = safeUrl pf (http_url o2)"
    by (auto simp: safeUrl_def split: option.splits)
  with assms(2-6) show ?thesis
    by (auto simp: httpRequest_def Let_def)
qed

text \<open>A request that is aborted never returns a response: it throws an
  \<open>ExternalServiceError\<close> with the call metadata, whose message names the timeout in force
  (30000 ms when none is given).\<close>

lemma httpRequest_abort_raises:
  assumes "fetch pf (http_fetch_request options) = AbortError"
  shows "httpRequest pf options =
           Inl (ExternalServiceError
                  (''Request to '' @ safeUrl pf (http_url options) @ '' timed out after ''
                   @ show_nat (case http_timeoutMs options of None \<Rightarrow> 30000 | Some t \<Rightarrow> t) @ ''ms'')
                  (http_metadata options) None)"
  using assms by (simp add: httpRequest_def DEFAULT_TIMEOUT_MS_def Let_def split: option.splits)

text \<open>
  Claim C4 on both definitions of \<open>httpRequest\<close>, for a request that times out with a
  token in the query string and a fragment: the one without \<open>safeUrl\<close> puts query string
  and fragment into the message of the \<open>ExternalServiceError\<close>; the one with \<open>safeUrl\<close>
  names origin and path only.
\<close>

theorem httpRequest_raw_leaks_query:
  "httpRequest_raw (example_platform AbortError) leaky_options =
     Inl (ExternalServiceError
            ''Request to https://jira.example/rest/api/3/issue/PROJ-1?fields=summary&token=s3cr3t#frag timed out after 30000ms''
            example_metadata None)
   \<and> httpRequest (example_platform AbortError) leaky_options =
     Inl (ExternalServiceError
            ''Request to https://jira.example/rest/api/3/issue/PROJ-1 timed out after 30000ms''
            example_metadata None)"
  by (simp add: httpRequest_raw_def httpRequest_def leaky_options_def example_platform_def
      http_fetch_request_def safeUrl_def example_new_URL_def startsWith_def
      DEFAULT_TIMEOUT_MS_def show_nat.simps digit_char_def Let_def)

section \<open>The schema validator\<close>




section \<open>The update request carries the caller's fields\<close>




end
